theory Spec2Isabelle
  imports Main "HOL-Library.Word" "HOL-Library.Sublist"
begin

section \<open>JavaScript strings\<close>

text \<open>
  A JavaScript string is a sequence of UTF-16 code units; \<open>s.length\<close> counts code units,
  and so do the \<open>min\<close> and \<open>max\<close> checks of a zod string schema.
\<close>

type_synonym jsstring = "16 word list"

text \<open>
  The code units that \<open>String.prototype.trim\<close> strips: ECMAScript's WhiteSpace (TAB, VT, FF,
  ZWNBSP and the Unicode space separators) and LineTerminator (LF, CR, LS, PS). All of them
  lie in the basic multilingual plane, so each is one code unit.
\<close>

definition isWhiteSpace :: "16 word \<Rightarrow> bool" where
  "isWhiteSpace c \<longleftrightarrow>
     c \<in> set [0x0009, 0x000A, 0x000B, 0x000C, 0x000D, 0x0020, 0x00A0, 0x1680,
              0x2000, 0x2001, 0x2002, 0x2003, 0x2004, 0x2005, 0x2006, 0x2007,
              0x2008, 0x2009, 0x200A, 0x2028, 0x2029, 0x202F, 0x205F, 0x3000, 0xFEFF]"

definition trim :: "jsstring \<Rightarrow> jsstring" where
  "trim s = rev (dropWhile isWhiteSpace (rev (dropWhile isWhiteSpace s)))"

section \<open>The restaurant list (lunch-roulette-client.tsx)\<close>

text \<open>\<open>type Restaurant = { id: string; name: string; blacklisted: boolean }\<close>\<close>

record Restaurant =
  id_r :: jsstring
  name :: jsstring
  blacklisted :: bool

datatype error = ValidationError string | TypeError

text \<open>
  \<open>formSchema\<close>: \<open>z.string().min(1, ...).max(50, ...)\<close> on the field \<open>restaurantName\<close>,
  checked on the value as typed.
\<close>

definition formSchema :: "jsstring \<Rightarrow> error + jsstring" where
  "formSchema restaurantName =
     (if length restaurantName < 1 then Inl (ValidationError ''Please enter a restaurant name.'')
      else if length restaurantName > 50 then Inl (ValidationError ''Name is too long.'')
      else Inr restaurantName)"

text \<open>\<open>activeRestaurants\<close> and \<open>hasBlacklisted\<close>, the two memoised views of the list.\<close>

definition activeRestaurants :: "Restaurant list \<Rightarrow> Restaurant list" where
  "activeRestaurants restaurants = filter (\<lambda>r. \<not> blacklisted r) restaurants"

definition hasBlacklisted :: "Restaurant list \<Rightarrow> bool" where
  "hasBlacklisted restaurants = list_ex (\<lambda>r. blacklisted r) restaurants"

text \<open>
  The handlers take the current list and return the list handed to \<open>setRestaurants\<close>.
  \<open>crypto.randomUUID()\<close> is an input of \<open>handleAddRestaurant\<close>.
\<close>

definition handleAddRestaurant :: "jsstring \<Rightarrow> jsstring \<Rightarrow> Restaurant list \<Rightarrow> Restaurant list" where
  "handleAddRestaurant randomUUID restaurantName restaurants =
     (let newRestaurant = \<lparr>id_r = randomUUID, name = trim restaurantName, blacklisted = False\<rparr>
      in restaurants @ [newRestaurant])"

text \<open>
  \<open>form.handleSubmit(handleAddRestaurant)\<close>: the resolver validates the field with
  \<open>formSchema\<close> and the handler runs only on the validated values.
\<close>

definition handleSubmit :: "jsstring \<Rightarrow> jsstring \<Rightarrow> Restaurant list \<Rightarrow> error + Restaurant list" where
  "handleSubmit randomUUID restaurantName restaurants =
     (case formSchema restaurantName of
        Inl e \<Rightarrow> Inl e
      | Inr values \<Rightarrow> Inr (handleAddRestaurant randomUUID values restaurants))"

definition handleRemoveRestaurant :: "jsstring \<Rightarrow> Restaurant list \<Rightarrow> Restaurant list" where
  "handleRemoveRestaurant i restaurants = filter (\<lambda>r. id_r r \<noteq> i) restaurants"

definition handleToggleBlacklist :: "jsstring \<Rightarrow> Restaurant list \<Rightarrow> Restaurant list" where
  "handleToggleBlacklist i restaurants =
     map (\<lambda>r. if id_r r = i then r\<lparr>blacklisted := \<not> blacklisted r\<rparr> else r) restaurants"

definition handleResetBlacklist :: "Restaurant list \<Rightarrow> Restaurant list" where
  "handleResetBlacklist restaurants = map (\<lambda>r. r\<lparr>blacklisted := False\<rparr>) restaurants"

section \<open>The suggestion dialog\<close>

record toast =
  variant :: string
  title :: string
  description :: string

text \<open>The component's state: the stored list, the three \<open>useState\<close> cells and the toasts shown.\<close>

record ui_state =
  restaurants :: "Restaurant list"
  suggestion :: "jsstring option"
  isLoading :: bool
  dialogOpen :: bool
  toasts :: "toast list"

definition notEnoughOptions :: toast where
  "notEnoughOptions =
     \<lparr>variant = ''destructive'', title = ''Not enough options!'',
      description = ''Please add at least two active restaurants to get a suggestion.''\<rparr>"

text \<open>
  \<open>handleGetSuggestion\<close> returns the next state and, when it schedules the timeout, the
  \<open>activeRestaurants\<close> array that the callback has captured (\<open>None\<close>: nothing scheduled).
\<close>

definition handleGetSuggestion :: "ui_state \<Rightarrow> ui_state \<times> Restaurant list option" where
  "handleGetSuggestion st =
     (let active = activeRestaurants (restaurants st)
      in if length active < 2 then (st\<lparr>toasts := toasts st @ [notEnoughOptions]\<rparr>, None)
         else (st\<lparr>dialogOpen := True, isLoading := True, suggestion := None\<rparr>, Some active))"

text \<open>
  The timeout callback. \<open>randomIndex\<close> stands for \<open>Math.floor(Math.random() * active.length)\<close>;
  reading \<open>.name\<close> of an index outside the array is a TypeError in JavaScript.
\<close>

definition suggestionTimeout :: "Restaurant list \<Rightarrow> nat \<Rightarrow> ui_state \<Rightarrow> error + ui_state" where
  "suggestionTimeout active randomIndex st =
     (if randomIndex < length active
      then (let randomRestaurant = active ! randomIndex
            in Inr (st\<lparr>suggestion := Some (name randomRestaurant), isLoading := False\<rparr>))
      else Inl TypeError)"

section \<open>The generative flow\<close>

record SuggestRestaurantInput =
  restaurants_in :: "jsstring list"

record SuggestRestaurantOutput =
  suggestedRestaurant :: jsstring

text \<open>
  A call of the flow returns a promise: \<open>Inr\<close> is the value it resolves to, \<open>Inl\<close> the error it
  rejects with, which is what the caller receives when nothing has caught it on the way.
\<close>

datatype flow_error = SchemaValidationError | BackendError

text \<open>
  The two zod schemas, as parsers. Every value of the input type is an object with an array
  of strings, so \<open>SuggestRestaurantInputSchema\<close> accepts it; \<open>SuggestRestaurantOutputSchema\<close>
  is an object schema, which accepts an object with the string field and refuses \<open>null\<close>.
\<close>

definition SuggestRestaurantInputSchema :: "SuggestRestaurantInput \<Rightarrow> flow_error + SuggestRestaurantInput" where
  "SuggestRestaurantInputSchema input = Inr input"

definition SuggestRestaurantOutputSchema ::
  "SuggestRestaurantOutput option \<Rightarrow> flow_error + SuggestRestaurantOutput" where
  "SuggestRestaurantOutputSchema v =
     (case v of None \<Rightarrow> Inl SchemaValidationError | Some out \<Rightarrow> Inr out)"

text \<open>
  Modelled from the spec: \<open>ai\<close> is imported from \<open>@/ai/genkit\<close>, which is not among the
  sources, so \<open>ai.defineFlow\<close> is modelled here. The spec names schema validation as the
  contract of the remote path and says that the call fails when the backend returns no
  structured output: the flow parses its argument with \<open>inputSchema\<close>, runs the function it
  was given, and parses what the function returns with \<open>outputSchema\<close>; a parse that fails
  rejects the call, and so does a rejection inside the function.
\<close>

definition defineFlow ::
  "('i \<Rightarrow> flow_error + 'i) \<Rightarrow> ('r \<Rightarrow> flow_error + 'o) \<Rightarrow> ('i \<Rightarrow> flow_error + 'r)
     \<Rightarrow> 'i \<Rightarrow> flow_error + 'o" where
  "defineFlow inputSchema outputSchema fn input =
     (case inputSchema input of
        Inl e \<Rightarrow> Inl e
      | Inr parsed \<Rightarrow>
          (case fn parsed of
             Inl e \<Rightarrow> Inl e
           | Inr result \<Rightarrow> outputSchema result))"

text \<open>
  \<open>suggestRestaurantFlow\<close>: the prompt is the external backend; its call may reject, and its
  response carries an \<open>output\<close> that may be \<open>null\<close> (\<open>None\<close>). \<open>await\<close> passes a rejection
  on. The non-null assertion \<open>output!\<close> is erased by the compiler, so the function returns
  whatever \<open>output\<close> holds, and the flow then checks it against the output schema.
\<close>

definition suggestRestaurantFlow ::
  "(SuggestRestaurantInput \<Rightarrow> flow_error + SuggestRestaurantOutput option) \<Rightarrow> SuggestRestaurantInput
     \<Rightarrow> flow_error + SuggestRestaurantOutput" where
  "suggestRestaurantFlow suggestRestaurantPrompt =
     defineFlow SuggestRestaurantInputSchema SuggestRestaurantOutputSchema
       (\<lambda>input. case suggestRestaurantPrompt input of
                   Inl e \<Rightarrow> Inl e
                 | Inr output \<Rightarrow> Inr output)"

text \<open>\<open>suggestRestaurant\<close> returns the flow's promise as it is: it has no \<open>try\<close>/\<open>catch\<close>.\<close>

definition suggestRestaurant ::
  "(SuggestRestaurantInput \<Rightarrow> flow_error + SuggestRestaurantOutput option) \<Rightarrow> SuggestRestaurantInput
     \<Rightarrow> flow_error + SuggestRestaurantOutput" where
  "suggestRestaurant suggestRestaurantPrompt input = suggestRestaurantFlow suggestRestaurantPrompt input"

section \<open>The invariant of the data model\<close>

text \<open>Ids are unique within the list; every name is trimmed, non-empty and at most 50 long.\<close>

definition name_ok :: "jsstring \<Rightarrow> bool" where
  "name_ok n \<longleftrightarrow> trim n = n \<and> n \<noteq> [] \<and> length n \<le> 50"

definition store_invariant :: "Restaurant list \<Rightarrow> bool" where
  "store_invariant rs \<longleftrightarrow> distinct (map id_r rs) \<and> list_all (\<lambda>r. name_ok (name r)) rs"

section \<open>Facts about trimming and absent ids\<close>

lemma length_trim_le: "length (trim s) \<le> length s"
  unfolding trim_def
  by (metis length_rev length_dropWhile_le le_trans)

lemma trim_idem: "trim (trim s) = trim s"
proof -
  define u where "u = dropWhile isWhiteSpace s"
  define v where "v = dropWhile isWhiteSpace (rev u)"
  have t: "trim s = rev v"
    by (simp add: trim_def u_def v_def)
  have v1: "dropWhile isWhiteSpace v = v"
    by (simp add: v_def)
  have "dropWhile isWhiteSpace (rev v) = rev v"
  proof (cases "v = []")
    case True
    then show ?thesis by simp
  next
    case False
    then have u_ne: "u \<noteq> []"
      by (auto simp: v_def)
    have "rev u = takeWhile isWhiteSpace (rev u) @ v"
      by (simp add: v_def)
    then have "last (rev u) = last v"
      using False by (metis last_appendR)
    then have "hd (rev v) = hd u"
      using False u_ne by (simp add: hd_rev last_rev)
    moreover have "\<not> isWhiteSpace (hd u)"
      using u_ne unfolding u_def by (rule hd_dropWhile)
    ultimately show ?thesis
      by (simp add: dropWhile_eq_self_iff)
  qed
  then show ?thesis
    by (simp add: trim_def [of "rev v"] t v1)
qed

lemma name_ok_trim: "trim n \<noteq> [] \<Longrightarrow> length n \<le> 50 \<Longrightarrow> name_ok (trim n)"
  using length_trim_le [of n] by (simp add: name_ok_def trim_idem)

lemma filter_absent: "i \<notin> id_r ` set zs \<Longrightarrow> filter (\<lambda>r. id_r r \<noteq> i) zs = zs"
  by (induction zs) auto

lemma map_toggle_absent:
  "i \<notin> id_r ` set zs \<Longrightarrow> map (\<lambda>r. if id_r r = i then r\<lparr>blacklisted := \<not> blacklisted r\<rparr> else r) zs = zs"
  by (induction zs) auto

lemma store_invariant_remove:
  "store_invariant rs \<Longrightarrow> store_invariant (handleRemoveRestaurant i rs)"
  by (simp add: store_invariant_def handleRemoveRestaurant_def distinct_map_filter list_all_iff)

lemma store_invariant_toggle:
  assumes "store_invariant rs"
  shows "store_invariant (handleToggleBlacklist i rs)"
proof -
  have ids: "map id_r (handleToggleBlacklist i rs) = map id_r rs"
    by (simp add: handleToggleBlacklist_def)
  have "list_all (\<lambda>r. name_ok (name r)) (handleToggleBlacklist i rs)"
    using assms by (auto simp: store_invariant_def list_all_iff handleToggleBlacklist_def)
  then show ?thesis
    using assms unfolding store_invariant_def ids by simp
qed

lemma store_invariant_reset:
  "store_invariant rs \<Longrightarrow> store_invariant (handleResetBlacklist rs)"
  by (simp add: store_invariant_def handleResetBlacklist_def list_all_iff comp_def)

lemma store_invariant_add_visible_name:
  assumes "store_invariant rs" and "u \<notin> id_r ` set rs" and "trim n \<noteq> []"
    and "handleSubmit u n rs = Inr rs'"
  shows "store_invariant rs'"
proof -
  have ok: "formSchema n = Inr n" and rs': "rs' = handleAddRestaurant u n rs"
    using assms(4) by (auto simp: handleSubmit_def formSchema_def split: if_splits)
  from ok have "length n \<le> 50"
    by (simp add: formSchema_def split: if_splits)
  then have "name_ok (trim n)"
    using assms(3) by (simp add: name_ok_trim)
  then show ?thesis
    using assms(1,2) by (simp add: rs' store_invariant_def handleAddRestaurant_def)
qed

lemma handleSubmit_length_50:
  "length n = 50 \<Longrightarrow>
     handleSubmit u n rs = Inr (rs @ [\<lparr>id_r = u, name = trim n, blacklisted = False\<rparr>])"
  by (simp add: handleSubmit_def formSchema_def handleAddRestaurant_def)

lemma handleSubmit_length_51:
  "length n = 51 \<Longrightarrow> handleSubmit u n rs = Inl (ValidationError ''Name is too long.'')"
  by (simp add: handleSubmit_def formSchema_def)

lemma suggestRestaurant_passes_output:
  "suggestRestaurantPrompt input = Inr (Some out) \<Longrightarrow>
     suggestRestaurant suggestRestaurantPrompt input = Inr out"
  by (simp add: suggestRestaurant_def suggestRestaurantFlow_def defineFlow_def
      SuggestRestaurantInputSchema_def SuggestRestaurantOutputSchema_def)

lemma suggestRestaurant_passes_rejection:
  "suggestRestaurantPrompt input = Inl e \<Longrightarrow>
     suggestRestaurant suggestRestaurantPrompt input = Inl e"
  by (simp add: suggestRestaurant_def suggestRestaurantFlow_def defineFlow_def
      SuggestRestaurantInputSchema_def)

section \<open>Asking for a suggestion with too few candidates\<close>

text \<open>
  C1: with fewer than two records that are not blacklisted, \<open>handleGetSuggestion\<close> only shows
  the "Not enough options!" toast: no timeout is scheduled, and the restaurant list, the
  suggestion and the dialog flags stay as they were.
\<close>

theorem handleGetSuggestion_rejects_below_two:
  assumes "length (activeRestaurants (restaurants st)) < 2"
  shows "handleGetSuggestion st = (st\<lparr>toasts := toasts st @ [notEnoughOptions]\<rparr>, None)
         \<and> restaurants (fst (handleGetSuggestion st)) = restaurants st
         \<and> suggestion (fst (handleGetSuggestion st)) = suggestion st
         \<and> dialogOpen (fst (handleGetSuggestion st)) = dialogOpen st
         \<and> isLoading (fst (handleGetSuggestion st)) = isLoading st"
  using assms by (simp add: handleGetSuggestion_def)

theorem handleGetSuggestion_rejects_below_two_witness:
  "length (activeRestaurants (restaurants
      \<lparr>restaurants = [\<lparr>id_r = [0x31], name = [0x50], blacklisted = False\<rparr>,
                      \<lparr>id_r = [0x32], name = [0x53], blacklisted = True\<rparr>],
       suggestion = None, isLoading = False, dialogOpen = False, toasts = []\<rparr>)) < 2
   \<and> handleGetSuggestion
      \<lparr>restaurants = [\<lparr>id_r = [0x31], name = [0x50], blacklisted = False\<rparr>,
                      \<lparr>id_r = [0x32], name = [0x53], blacklisted = True\<rparr>],
       suggestion = None, isLoading = False, dialogOpen = False, toasts = []\<rparr>
     = (\<lparr>restaurants = [\<lparr>id_r = [0x31], name = [0x50], blacklisted = False\<rparr>,
                      \<lparr>id_r = [0x32], name = [0x53], blacklisted = True\<rparr>],
       suggestion = None, isLoading = False, dialogOpen = False, toasts = [notEnoughOptions]\<rparr>, None)"
proof -
  let ?st = "\<lparr>restaurants = [\<lparr>id_r = [0x31], name = [0x50], blacklisted = False\<rparr>,
                      \<lparr>id_r = [0x32], name = [0x53], blacklisted = True\<rparr>],
       suggestion = None, isLoading = False, dialogOpen = False, toasts = []\<rparr>"
  have h: "length (activeRestaurants (restaurants ?st)) < 2"
    by (simp add: activeRestaurants_def)
  show ?thesis
    using h handleGetSuggestion_rejects_below_two [OF h] by simp
qed

section \<open>Adding a restaurant\<close>

text \<open>
  C2, as the claim states it, fails on the code: the bound of 50 is checked on the name as
  typed, before \<open>trim\<close>. Fifty letters followed by one space are rejected as too long,
  although the trimmed name is non-empty and exactly 50 long.
\<close>

theorem handleSubmit_padded_name_counterexample:
  "handleSubmit [0x75] (replicate 50 0x61 @ [0x20]) [] = Inl (ValidationError ''Name is too long.'')
   \<and> trim (replicate 50 0x61 @ [0x20]) = replicate 50 0x61
   \<and> \<not> ((\<exists>m. handleSubmit [0x75] (replicate 50 0x61 @ [0x20]) [] = Inl (ValidationError m))
          \<longleftrightarrow> (trim (replicate 50 0x61 @ [0x20]) = []
                \<or> 50 < length (trim (replicate 50 0x61 @ [0x20]))))"
  by (simp add: handleSubmit_def formSchema_def trim_def isWhiteSpace_def)

text \<open>
  C2, amended: for a name that is empty or holds a character that is not white space,
  submitting fails with a ValidationError exactly when the name as typed is empty or longer
  than 50 code units, and succeeds exactly when its typed length is between 1 and 50; on
  success the list gains, at its end, one record with the given fresh id, the trimmed name
  and \<open>blacklisted = False\<close>, and that name is trimmed, non-empty and at most 50 long.
\<close>

theorem handleSubmit_validates_typed_name:
  assumes "n = [] \<or> trim n \<noteq> []"
  shows "((\<exists>m. handleSubmit u n rs = Inl (ValidationError m)) \<longleftrightarrow> (n = [] \<or> 50 < length n))
       \<and> ((\<exists>rs'. handleSubmit u n rs = Inr rs') \<longleftrightarrow> (1 \<le> length n \<and> length n \<le> 50))
       \<and> (\<forall>rs'. handleSubmit u n rs = Inr rs' \<longrightarrow>
             rs' = rs @ [\<lparr>id_r = u, name = trim n, blacklisted = False\<rparr>] \<and> name_ok (trim n))"
proof (cases "n = [] \<or> 50 < length n")
  case True
  then show ?thesis
    by (auto simp: handleSubmit_def formSchema_def)
next
  case False
  then have n: "n \<noteq> []" "length n \<le> 50"
    by simp_all
  with assms have "name_ok (trim n)"
    by (simp add: name_ok_trim)
  moreover have "handleSubmit u n rs = Inr (rs @ [\<lparr>id_r = u, name = trim n, blacklisted = False\<rparr>])"
    using n by (simp add: handleSubmit_def formSchema_def handleAddRestaurant_def)
  moreover have "1 \<le> length n"
    using n(1) by (cases n) simp_all
  ultimately show ?thesis
    using n by simp
qed

theorem handleSubmit_validates_typed_name_witness:
  "([0x20, 0x50, 0x20] = [] \<or> trim [0x20, 0x50, 0x20] \<noteq> [])
   \<and> handleSubmit [0x75] [0x20, 0x50, 0x20] []
       = Inr [\<lparr>id_r = [0x75], name = [0x50], blacklisted = False\<rparr>]
   \<and> name_ok [0x50]"
proof -
  have t: "trim [0x20, 0x50, 0x20] = [0x50]"
    by (simp add: trim_def isWhiteSpace_def)
  have h: "[0x20, 0x50, 0x20] = [] \<or> trim [0x20, 0x50, 0x20] \<noteq> []"
    by (simp add: t)
  have e: "handleSubmit [0x75] [0x20, 0x50, 0x20] []
            = Inr [\<lparr>id_r = [0x75], name = [0x50], blacklisted = False\<rparr>]"
    by (simp add: handleSubmit_def formSchema_def handleAddRestaurant_def t)
  from handleSubmit_validates_typed_name [OF h, of "[0x75]" "[]"] e
  have "name_ok (trim [0x20, 0x50, 0x20])"
    by blast
  then show ?thesis
    using h e by (simp add: t)
qed

section \<open>Picking a restaurant\<close>

text \<open>
  C3: with at least two records that are not blacklisted and a drawn index \<open>i\<close> below their
  number, \<open>handleGetSuggestion\<close> schedules the callback on the filtered list and the callback
  sets the suggestion to the name at position \<open>i\<close> of that list, which is the name of a
  record of the current list that is not blacklisted; the list itself is unchanged.
\<close>

theorem local_pick_returns_eligible_name:
  assumes "2 \<le> length (activeRestaurants (restaurants st))"
    and "i < length (activeRestaurants (restaurants st))"
  shows "\<exists>st1 st2. handleGetSuggestion st = (st1, Some (activeRestaurants (restaurants st)))
           \<and> suggestionTimeout (activeRestaurants (restaurants st)) i st1 = Inr st2
           \<and> suggestion st2 = Some (name (activeRestaurants (restaurants st) ! i))
           \<and> restaurants st2 = restaurants st
           \<and> (\<exists>r \<in> set (restaurants st). \<not> blacklisted r \<and> suggestion st2 = Some (name r))"
proof -
  let ?active = "activeRestaurants (restaurants st)"
  have "?active ! i \<in> set ?active"
    using assms(2) by simp
  then have "?active ! i \<in> set (restaurants st) \<and> \<not> blacklisted (?active ! i)"
    by (simp add: activeRestaurants_def)
  then have "\<exists>r \<in> set (restaurants st). \<not> blacklisted r \<and> name (?active ! i) = name r"
    by blast
  then show ?thesis
    using assms by (simp add: handleGetSuggestion_def suggestionTimeout_def)
qed

theorem local_pick_returns_eligible_name_witness:
  "2 \<le> length (activeRestaurants (restaurants
        \<lparr>restaurants = [\<lparr>id_r = [0x31], name = [0x50], blacklisted = False\<rparr>,
                        \<lparr>id_r = [0x32], name = [0x53], blacklisted = True\<rparr>,
                        \<lparr>id_r = [0x33], name = [0x54], blacklisted = False\<rparr>],
         suggestion = None, isLoading = False, dialogOpen = False, toasts = []\<rparr>))
   \<and> 1 < length (activeRestaurants (restaurants
        \<lparr>restaurants = [\<lparr>id_r = [0x31], name = [0x50], blacklisted = False\<rparr>,
                        \<lparr>id_r = [0x32], name = [0x53], blacklisted = True\<rparr>,
                        \<lparr>id_r = [0x33], name = [0x54], blacklisted = False\<rparr>],
         suggestion = None, isLoading = False, dialogOpen = False, toasts = []\<rparr>))
   \<and> (\<exists>st1 st2. handleGetSuggestion
        \<lparr>restaurants = [\<lparr>id_r = [0x31], name = [0x50], blacklisted = False\<rparr>,
                        \<lparr>id_r = [0x32], name = [0x53], blacklisted = True\<rparr>,
                        \<lparr>id_r = [0x33], name = [0x54], blacklisted = False\<rparr>],
         suggestion = None, isLoading = False, dialogOpen = False, toasts = []\<rparr>
          = (st1, Some [\<lparr>id_r = [0x31], name = [0x50], blacklisted = False\<rparr>,
                        \<lparr>id_r = [0x33], name = [0x54], blacklisted = False\<rparr>])
        \<and> suggestionTimeout [\<lparr>id_r = [0x31], name = [0x50], blacklisted = False\<rparr>,
                              \<lparr>id_r = [0x33], name = [0x54], blacklisted = False\<rparr>] 1 st1 = Inr st2
        \<and> suggestion st2 = Some [0x54])"
proof -
  let ?rs = "[\<lparr>id_r = [0x31], name = [0x50], blacklisted = False\<rparr>,
              \<lparr>id_r = [0x32], name = [0x53], blacklisted = True\<rparr>,
              \<lparr>id_r = [0x33], name = [0x54], blacklisted = False\<rparr>]"
  let ?st = "\<lparr>restaurants = ?rs, suggestion = None, isLoading = False, dialogOpen = False, toasts = []\<rparr>"
  have h1: "2 \<le> length (activeRestaurants (restaurants ?st))"
    by (simp add: activeRestaurants_def)
  have h2: "1 < length (activeRestaurants (restaurants ?st))"
    by (simp add: activeRestaurants_def)
  from local_pick_returns_eligible_name [OF h1 h2]
  obtain st1 st2 where
    "handleGetSuggestion ?st = (st1, Some (activeRestaurants (restaurants ?st)))"
    "suggestionTimeout (activeRestaurants (restaurants ?st)) 1 st1 = Inr st2"
    "suggestion st2 = Some (name (activeRestaurants (restaurants ?st) ! 1))"
    by blast
  then have "handleGetSuggestion ?st
      = (st1, Some [\<lparr>id_r = [0x31], name = [0x50], blacklisted = False\<rparr>,
                    \<lparr>id_r = [0x33], name = [0x54], blacklisted = False\<rparr>])
    \<and> suggestionTimeout [\<lparr>id_r = [0x31], name = [0x50], blacklisted = False\<rparr>,
                          \<lparr>id_r = [0x33], name = [0x54], blacklisted = False\<rparr>] 1 st1 = Inr st2
    \<and> suggestion st2 = Some [0x54]"
    by (simp add: activeRestaurants_def)
  then show ?thesis
    using h1 h2 by blast
qed

section \<open>The generative flow without an output\<close>

text \<open>
  C4, as the claim states it, fails on the code: with a backend whose response has no
  output, the call of \<open>suggestRestaurant\<close> for the list A, B, C rejects, and the error its
  caller receives is the schema-validation error of the flow. The failure is not caught
  inside the remote pick and is not turned into a message.
\<close>

theorem suggestRestaurant_absent_output_counterexample:
  "suggestRestaurant (\<lambda>input. Inr None) \<lparr>restaurants_in = [[0x41], [0x42], [0x43]]\<rparr>
     = Inl SchemaValidationError"
  by (simp add: suggestRestaurant_def suggestRestaurantFlow_def defineFlow_def
      SuggestRestaurantInputSchema_def SuggestRestaurantOutputSchema_def)

text \<open>
  C4, amended: for every input, if the backend returns no structured output, the call of
  \<open>suggestRestaurant\<close> fails: the flow's output schema refuses the absent output, and the
  schema-validation error is the rejection that the caller of \<open>suggestRestaurant\<close> receives.
\<close>

theorem suggestRestaurant_rejects_absent_output:
  assumes "suggestRestaurantPrompt input = Inr None"
  shows "suggestRestaurant suggestRestaurantPrompt input = Inl SchemaValidationError"
  using assms
  by (simp add: suggestRestaurant_def suggestRestaurantFlow_def defineFlow_def
      SuggestRestaurantInputSchema_def SuggestRestaurantOutputSchema_def)

theorem suggestRestaurant_rejects_absent_output_witness:
  "suggestRestaurant
     (\<lambda>input. case restaurants_in input of
                 [] \<Rightarrow> Inr None
               | r # rs \<Rightarrow> Inr (Some \<lparr>suggestedRestaurant = r\<rparr>))
     \<lparr>restaurants_in = []\<rparr>
   = Inl SchemaValidationError"
proof -
  let ?prompt = "\<lambda>input. case restaurants_in input of
                   [] \<Rightarrow> Inr None
                 | r # rs \<Rightarrow> Inr (Some \<lparr>suggestedRestaurant = r\<rparr>)"
  have h: "?prompt \<lparr>restaurants_in = []\<rparr> = Inr None"
    by simp
  show ?thesis
    using suggestRestaurant_rejects_absent_output [of ?prompt "\<lparr>restaurants_in = []\<rparr>", OF h]
    by simp
qed

section \<open>The invariant under the store operations\<close>

text \<open>
  C5: the invariant does not survive adding a name that consists of white space only. A
  single space passes \<open>formSchema\<close> (its length is 1) and is stored as the empty name, on a
  list that satisfied the invariant and with an id that is fresh. Removing, toggling and
  resetting keep the invariant, and so does adding a name with a visible character
  (\<open>store_invariant_remove\<close>, \<open>store_invariant_toggle\<close>, \<open>store_invariant_reset\<close>,
  \<open>store_invariant_add_visible_name\<close>).
\<close>

theorem add_blank_name_breaks_store_invariant:
  "store_invariant []
   \<and> handleSubmit [0x75] [0x20] [] = Inr [\<lparr>id_r = [0x75], name = [], blacklisted = False\<rparr>]
   \<and> \<not> store_invariant [\<lparr>id_r = [0x75], name = [], blacklisted = False\<rparr>]"
  by (simp add: store_invariant_def name_ok_def handleSubmit_def formSchema_def
      handleAddRestaurant_def trim_def isWhiteSpace_def)

section \<open>Adding and then removing\<close>

text \<open>
  C6: for a name that passes validation (typed length between 1 and 50) and an id that no
  record of the list has, submitting the name succeeds, and removing that id from the
  result gives back the list as it was.
\<close>

theorem add_then_remove_restores:
  assumes "1 \<le> length n" and "length n \<le> 50" and "u \<notin> id_r ` set rs"
  shows "\<exists>rs'. handleSubmit u n rs = Inr rs' \<and> handleRemoveRestaurant u rs' = rs"
proof -
  have "formSchema n = Inr n"
    using assms(1,2) by (cases n) (simp_all add: formSchema_def)
  then show ?thesis
    using assms(3)
    by (simp add: handleSubmit_def handleAddRestaurant_def handleRemoveRestaurant_def filter_absent)
qed

theorem add_then_remove_restores_witness:
  "1 \<le> length [0x50 :: 16 word] \<and> length [0x50 :: 16 word] \<le> 50
   \<and> [0x32] \<notin> id_r ` set [\<lparr>id_r = [0x31], name = [0x53], blacklisted = True\<rparr>]
   \<and> handleSubmit [0x32] [0x50] [\<lparr>id_r = [0x31], name = [0x53], blacklisted = True\<rparr>]
       = Inr [\<lparr>id_r = [0x31], name = [0x53], blacklisted = True\<rparr>,
              \<lparr>id_r = [0x32], name = [0x50], blacklisted = False\<rparr>]
   \<and> handleRemoveRestaurant [0x32]
        [\<lparr>id_r = [0x31], name = [0x53], blacklisted = True\<rparr>,
         \<lparr>id_r = [0x32], name = [0x50], blacklisted = False\<rparr>]
       = [\<lparr>id_r = [0x31], name = [0x53], blacklisted = True\<rparr>]"
proof -
  have h1: "1 \<le> length [0x50 :: 16 word]" by simp
  have h2: "length [0x50 :: 16 word] \<le> 50" by simp
  have h3: "[0x32] \<notin> id_r ` set [\<lparr>id_r = [0x31], name = [0x53], blacklisted = True\<rparr>]" by simp
  show ?thesis
    using add_then_remove_restores [OF h1 h2 h3]
    by (auto simp: handleSubmit_def formSchema_def handleAddRestaurant_def trim_def isWhiteSpace_def)
qed


section \<open>Resetting the exclusions\<close>

text \<open>
  C7: \<open>handleResetBlacklist\<close> leaves every record with \<open>blacklisted = False\<close>, and applying
  it twice gives the same list as applying it once.
\<close>

theorem handleResetBlacklist_clears_idempotent:
  "(\<forall>r \<in> set (handleResetBlacklist rs). blacklisted r = False)
   \<and> handleResetBlacklist (handleResetBlacklist rs) = handleResetBlacklist rs"
  by (simp add: handleResetBlacklist_def)

theorem handleResetBlacklist_clears_idempotent_witness:
  "handleResetBlacklist
        [\<lparr>id_r = [0x31], name = [0x50], blacklisted = False\<rparr>,
         \<lparr>id_r = [0x32], name = [0x53], blacklisted = True\<rparr>]
      = [\<lparr>id_r = [0x31], name = [0x50], blacklisted = False\<rparr>,
         \<lparr>id_r = [0x32], name = [0x53], blacklisted = False\<rparr>]
   \<and> handleResetBlacklist (handleResetBlacklist
        [\<lparr>id_r = [0x31], name = [0x50], blacklisted = False\<rparr>,
         \<lparr>id_r = [0x32], name = [0x53], blacklisted = True\<rparr>])
      = [\<lparr>id_r = [0x31], name = [0x50], blacklisted = False\<rparr>,
         \<lparr>id_r = [0x32], name = [0x53], blacklisted = False\<rparr>]"
proof -
  let ?rs = "[\<lparr>id_r = [0x31], name = [0x50], blacklisted = False\<rparr>,
              \<lparr>id_r = [0x32], name = [0x53], blacklisted = True\<rparr>]"
  have once: "handleResetBlacklist ?rs
      = [\<lparr>id_r = [0x31], name = [0x50], blacklisted = False\<rparr>,
         \<lparr>id_r = [0x32], name = [0x53], blacklisted = False\<rparr>]"
    by (simp add: handleResetBlacklist_def)
  have "handleResetBlacklist (handleResetBlacklist ?rs) = handleResetBlacklist ?rs"
    using handleResetBlacklist_clears_idempotent [of ?rs] by blast
  then show ?thesis
    using once by simp
qed

section \<open>Removing a record\<close>

text \<open>
  C8: \<open>handleRemoveRestaurant\<close> deletes the record with the given id wherever it sits and
  keeps the other records in their order; without such a record the list is returned as it
  is. Whatever the ids, the result is a subsequence of the list, holds no record with that
  id and keeps every record with another id.
\<close>

theorem handleRemoveRestaurant_deletes_in_place:
  "(id_r r = i \<and> i \<notin> id_r ` set xs \<and> i \<notin> id_r ` set ys
      \<longrightarrow> handleRemoveRestaurant i (xs @ r # ys) = xs @ ys)
   \<and> (i \<notin> id_r ` set rs \<longrightarrow> handleRemoveRestaurant i rs = rs)
   \<and> subseq (handleRemoveRestaurant i rs) rs
   \<and> i \<notin> id_r ` set (handleRemoveRestaurant i rs)
   \<and> filter (\<lambda>r. id_r r \<noteq> i) (handleRemoveRestaurant i rs) = filter (\<lambda>r. id_r r \<noteq> i) rs"
proof -
  have "id_r r = i \<and> i \<notin> id_r ` set xs \<and> i \<notin> id_r ` set ys
      \<longrightarrow> handleRemoveRestaurant i (xs @ r # ys) = xs @ ys"
    by (simp add: handleRemoveRestaurant_def filter_absent)
  moreover have "i \<notin> id_r ` set rs \<longrightarrow> handleRemoveRestaurant i rs = rs"
    by (simp add: handleRemoveRestaurant_def filter_absent)
  moreover have "subseq (handleRemoveRestaurant i rs) rs"
    by (simp add: handleRemoveRestaurant_def)
  moreover have "i \<notin> id_r ` set (handleRemoveRestaurant i rs)"
    by (auto simp: handleRemoveRestaurant_def)
  moreover have "filter (\<lambda>r. id_r r \<noteq> i) (handleRemoveRestaurant i rs) = filter (\<lambda>r. id_r r \<noteq> i) rs"
    by (simp add: handleRemoveRestaurant_def)
  ultimately show ?thesis by blast
qed

theorem handleRemoveRestaurant_deletes_in_place_witness:
  "id_r \<lparr>id_r = [0x32], name = [0x53], blacklisted = True\<rparr> = [0x32] \<and> [0x32] \<notin> id_r ` set [\<lparr>id_r = [0x31], name = [0x50], blacklisted = False\<rparr>] \<and> [0x32] \<notin> id_r ` set [\<lparr>id_r = [0x33], name = [0x54], blacklisted = False\<rparr>]
   \<and> handleRemoveRestaurant [0x32] [\<lparr>id_r = [0x31], name = [0x50], blacklisted = False\<rparr>, \<lparr>id_r = [0x32], name = [0x53], blacklisted = True\<rparr>, \<lparr>id_r = [0x33], name = [0x54], blacklisted = False\<rparr>] = [\<lparr>id_r = [0x31], name = [0x50], blacklisted = False\<rparr>, \<lparr>id_r = [0x33], name = [0x54], blacklisted = False\<rparr>]
   \<and> [0x32] \<notin> id_r ` set [\<lparr>id_r = [0x31], name = [0x50], blacklisted = False\<rparr>, \<lparr>id_r = [0x33], name = [0x54], blacklisted = False\<rparr>]
   \<and> handleRemoveRestaurant [0x32] [\<lparr>id_r = [0x31], name = [0x50], blacklisted = False\<rparr>, \<lparr>id_r = [0x33], name = [0x54], blacklisted = False\<rparr>] = [\<lparr>id_r = [0x31], name = [0x50], blacklisted = False\<rparr>, \<lparr>id_r = [0x33], name = [0x54], blacklisted = False\<rparr>]"
  using handleRemoveRestaurant_deletes_in_place
    [where r = "\<lparr>id_r = [0x32], name = [0x53], blacklisted = True\<rparr>" and i = "[0x32]" and xs = "[\<lparr>id_r = [0x31], name = [0x50], blacklisted = False\<rparr>]" and ys = "[\<lparr>id_r = [0x33], name = [0x54], blacklisted = False\<rparr>]" and rs = "[\<lparr>id_r = [0x31], name = [0x50], blacklisted = False\<rparr>, \<lparr>id_r = [0x33], name = [0x54], blacklisted = False\<rparr>]"]
  by simp

section \<open>Toggling an exclusion\<close>

text \<open>
  C9: \<open>handleToggleBlacklist\<close> negates \<open>blacklisted\<close> on the record whose id matches, leaving
  the records around it as they are, and returns the list as it is when no record has that
  id. Whatever the ids, the length is kept and each position holds the old record, with its
  flag negated if its id is the given one.
\<close>

theorem handleToggleBlacklist_flips_matching:
  "(id_r r = i \<and> i \<notin> id_r ` set xs \<and> i \<notin> id_r ` set ys
      \<longrightarrow> handleToggleBlacklist i (xs @ r # ys) = xs @ r\<lparr>blacklisted := \<not> blacklisted r\<rparr> # ys)
   \<and> (i \<notin> id_r ` set rs \<longrightarrow> handleToggleBlacklist i rs = rs)
   \<and> length (handleToggleBlacklist i rs) = length rs
   \<and> (\<forall>k < length rs.
        handleToggleBlacklist i rs ! k
          = (if id_r (rs ! k) = i then (rs ! k)\<lparr>blacklisted := \<not> blacklisted (rs ! k)\<rparr> else rs ! k))"
  by (simp add: handleToggleBlacklist_def map_toggle_absent)

theorem handleToggleBlacklist_flips_matching_witness:
  "id_r \<lparr>id_r = [0x32], name = [0x53], blacklisted = True\<rparr> = [0x32] \<and> [0x32] \<notin> id_r ` set [\<lparr>id_r = [0x31], name = [0x50], blacklisted = False\<rparr>] \<and> [0x32] \<notin> id_r ` set [\<lparr>id_r = [0x33], name = [0x54], blacklisted = False\<rparr>]
   \<and> handleToggleBlacklist [0x32] [\<lparr>id_r = [0x31], name = [0x50], blacklisted = False\<rparr>, \<lparr>id_r = [0x32], name = [0x53], blacklisted = True\<rparr>, \<lparr>id_r = [0x33], name = [0x54], blacklisted = False\<rparr>] = [\<lparr>id_r = [0x31], name = [0x50], blacklisted = False\<rparr>, \<lparr>id_r = [0x32], name = [0x53], blacklisted = False\<rparr>, \<lparr>id_r = [0x33], name = [0x54], blacklisted = False\<rparr>]
   \<and> [0x32] \<notin> id_r ` set [\<lparr>id_r = [0x31], name = [0x50], blacklisted = False\<rparr>, \<lparr>id_r = [0x33], name = [0x54], blacklisted = False\<rparr>]
   \<and> handleToggleBlacklist [0x32] [\<lparr>id_r = [0x31], name = [0x50], blacklisted = False\<rparr>, \<lparr>id_r = [0x33], name = [0x54], blacklisted = False\<rparr>] = [\<lparr>id_r = [0x31], name = [0x50], blacklisted = False\<rparr>, \<lparr>id_r = [0x33], name = [0x54], blacklisted = False\<rparr>]
   \<and> (0::nat) < length [\<lparr>id_r = [0x31], name = [0x50], blacklisted = False\<rparr>, \<lparr>id_r = [0x33], name = [0x54], blacklisted = False\<rparr>]
   \<and> handleToggleBlacklist [0x32] [\<lparr>id_r = [0x31], name = [0x50], blacklisted = False\<rparr>, \<lparr>id_r = [0x33], name = [0x54], blacklisted = False\<rparr>] ! 0 = \<lparr>id_r = [0x31], name = [0x50], blacklisted = False\<rparr>"
  using handleToggleBlacklist_flips_matching
    [where r = "\<lparr>id_r = [0x32], name = [0x53], blacklisted = True\<rparr>" and i = "[0x32]" and xs = "[\<lparr>id_r = [0x31], name = [0x50], blacklisted = False\<rparr>]" and ys = "[\<lparr>id_r = [0x33], name = [0x54], blacklisted = False\<rparr>]" and rs = "[\<lparr>id_r = [0x31], name = [0x50], blacklisted = False\<rparr>, \<lparr>id_r = [0x33], name = [0x54], blacklisted = False\<rparr>]"]
  by simp

section \<open>What toggling and resetting leave alone\<close>

text \<open>
  C10: \<open>handleToggleBlacklist\<close> and \<open>handleResetBlacklist\<close> keep the length of the list and,
  position by position, every id and every name; toggling changes no record whose id differs
  from the given one, so only \<open>blacklisted\<close> flags can change.
\<close>

theorem toggle_reset_frame:
  "length (handleToggleBlacklist i rs) = length rs
   \<and> map id_r (handleToggleBlacklist i rs) = map id_r rs
   \<and> map name (handleToggleBlacklist i rs) = map name rs
   \<and> (\<forall>k < length rs. id_r (rs ! k) \<noteq> i \<longrightarrow> handleToggleBlacklist i rs ! k = rs ! k)
   \<and> length (handleResetBlacklist rs) = length rs
   \<and> map id_r (handleResetBlacklist rs) = map id_r rs
   \<and> map name (handleResetBlacklist rs) = map name rs"
  by (simp add: handleToggleBlacklist_def handleResetBlacklist_def)

theorem toggle_reset_frame_witness:
  "(0::nat) < length [\<lparr>id_r = [0x31], name = [0x50], blacklisted = False\<rparr>, \<lparr>id_r = [0x32], name = [0x53], blacklisted = True\<rparr>] \<and> id_r ([\<lparr>id_r = [0x31], name = [0x50], blacklisted = False\<rparr>, \<lparr>id_r = [0x32], name = [0x53], blacklisted = True\<rparr>] ! 0) \<noteq> [0x32]
   \<and> handleToggleBlacklist [0x32] [\<lparr>id_r = [0x31], name = [0x50], blacklisted = False\<rparr>, \<lparr>id_r = [0x32], name = [0x53], blacklisted = True\<rparr>] ! 0 = \<lparr>id_r = [0x31], name = [0x50], blacklisted = False\<rparr>
   \<and> map id_r (handleToggleBlacklist [0x32] [\<lparr>id_r = [0x31], name = [0x50], blacklisted = False\<rparr>, \<lparr>id_r = [0x32], name = [0x53], blacklisted = True\<rparr>]) = [[0x31], [0x32]]
   \<and> map name (handleToggleBlacklist [0x32] [\<lparr>id_r = [0x31], name = [0x50], blacklisted = False\<rparr>, \<lparr>id_r = [0x32], name = [0x53], blacklisted = True\<rparr>]) = [[0x50], [0x53]]
   \<and> map id_r (handleResetBlacklist [\<lparr>id_r = [0x31], name = [0x50], blacklisted = False\<rparr>, \<lparr>id_r = [0x32], name = [0x53], blacklisted = True\<rparr>]) = [[0x31], [0x32]]
   \<and> map name (handleResetBlacklist [\<lparr>id_r = [0x31], name = [0x50], blacklisted = False\<rparr>, \<lparr>id_r = [0x32], name = [0x53], blacklisted = True\<rparr>]) = [[0x50], [0x53]]"
  using toggle_reset_frame [where i = "[0x32]" and rs = "[\<lparr>id_r = [0x31], name = [0x50], blacklisted = False\<rparr>, \<lparr>id_r = [0x32], name = [0x53], blacklisted = True\<rparr>]"]
  by simp

end
